theory Spec2Isabelle
  imports Main
begin

section \<open>The type universe used by the expression checker\<close>

text \<open>
  \<^verbatim>\<open>expressions.py\<close> imports its types from the module \<^verbatim>\<open>types\<close>, which it only calls:
  \<^verbatim>\<open>t.name\<close>, \<^verbatim>\<open>t.is_subtype_of(other)\<close>, \<^verbatim>\<open>t.method_named(name)\<close> (whose result is
  compared with \<^verbatim>\<open>None\<close> and otherwise read through \<^verbatim>\<open>.parameter_types\<close>),
  \<^verbatim>\<open>t.is_instantiable\<close>, \<^verbatim>\<open>t.constructor.param_types\<close> and the constant
  \<^verbatim>\<open>JavaBuiltInTypes.NULL\<close>. These six capabilities are a parameter of the model: a record
  of functions over an arbitrary type \<open>'t\<close> of Java types. Nothing is assumed about them
  (in particular the subtype test need not be reflexive or transitive).
\<close>

record 't type_universe =
  type_name :: "'t \<Rightarrow> string"
  is_subtype_of :: "'t \<Rightarrow> 't \<Rightarrow> bool"
  method_named :: "'t \<Rightarrow> string \<Rightarrow> 't list option"
  is_instantiable :: "'t \<Rightarrow> bool"
  constructor :: "'t \<Rightarrow> 't list"
  NULL :: "'t"

section \<open>Expressions\<close>

text \<open>
  The classes \<^verbatim>\<open>JavaVariable\<close>, \<^verbatim>\<open>JavaLiteral\<close>, \<^verbatim>\<open>JavaNullLiteral\<close>, \<^verbatim>\<open>JavaAssignment\<close>,
  \<^verbatim>\<open>JavaMethodCall\<close> and \<^verbatim>\<open>JavaConstructorCall\<close>. The left-hand side of an assignment is a
  \<^verbatim>\<open>JavaVariable\<close> (its \<^verbatim>\<open>name\<close> is read), so variables are a type of their own. The types
  stored in a node are never \<^verbatim>\<open>None\<close>.
\<close>

datatype 't JavaVariable = JavaVariable (name: string) (declared_type: 't)

datatype 't JavaExpression =
    Variable "'t JavaVariable"
  | Literal string 't
  | NullLiteral
  | Assignment "'t JavaVariable" "'t JavaExpression"
  | MethodCall "'t JavaExpression" string "'t JavaExpression list"
  | ConstructorCall 't "'t JavaExpression list"

section \<open>Errors\<close>

text \<open>
  The exception classes that \<^verbatim>\<open>check_types\<close> can raise. \<^verbatim>\<open>JavaTypeError\<close> is the common
  category; \<^verbatim>\<open>JavaTypeMismatchError\<close>, \<^verbatim>\<open>JavaArgumentCountError\<close> and
  \<^verbatim>\<open>JavaIllegalInstantiationError\<close> are declared as its subclasses. \<^verbatim>\<open>AttributeError\<close> is
  what Python raises when an attribute of \<^verbatim>\<open>None\<close> is read; it is not a \<^verbatim>\<open>JavaTypeError\<close>.
\<close>

datatype exception_class =
    JavaTypeError
  | JavaTypeMismatchError
  | JavaArgumentCountError
  | JavaIllegalInstantiationError
  | AttributeError

datatype error = Raise (exn_class: exception_class) (message: string)

fun base_class :: "exception_class \<Rightarrow> exception_class option" where
  "base_class JavaTypeMismatchError = Some JavaTypeError"
| "base_class JavaArgumentCountError = Some JavaTypeError"
| "base_class JavaIllegalInstantiationError = Some JavaTypeError"
| "base_class JavaTypeError = None"
| "base_class AttributeError = None"

definition is_JavaTypeError :: "exception_class \<Rightarrow> bool" where
  "is_JavaTypeError c = (c = JavaTypeError \<or> base_class c = Some JavaTypeError)"

definition is_specialization :: "exception_class \<Rightarrow> bool" where
  "is_specialization c = (base_class c = Some JavaTypeError)"

definition none_has_no_attribute :: "string \<Rightarrow> error" where
  "none_has_no_attribute attr =
     Raise AttributeError
       ([CHR 0x27] @ ''NoneType'' @ [CHR 0x27] @ '' object has no attribute ''
          @ [CHR 0x27] @ attr @ [CHR 0x27])"

section \<open>Formatting\<close>

text \<open>Python's \<^verbatim>\<open>str\<close> of a non-negative integer and \<^verbatim>\<open>sep.join(xs)\<close>.\<close>

fun str_nat :: "nat \<Rightarrow> string" where
  "str_nat n =
     (if n < 10 then [''0123456789'' ! n]
      else str_nat (n div 10) @ [''0123456789'' ! (n mod 10)])"

declare str_nat.simps [simp del]

fun join :: "string \<Rightarrow> string list \<Rightarrow> string" where
  "join sep [] = []"
| "join sep [x] = x"
| "join sep (x # y # ys) = x @ sep @ join sep (y # ys)"

section \<open>Static types\<close>

text \<open>
  \<^verbatim>\<open>static_type\<close>: the base class returns \<^verbatim>\<open>None\<close> (its body is \<^verbatim>\<open>pass\<close>), and
  \<^verbatim>\<open>JavaMethodCall\<close> does not override it. An assignment returns
  \<^verbatim>\<open>self.lhs.static_type()\<close>, the declared type of its variable.
\<close>

fun static_type :: "'t type_universe \<Rightarrow> 't JavaExpression \<Rightarrow> 't option" where
  "static_type U (Variable v) = Some (declared_type v)"
| "static_type U (Literal val t) = Some t"
| "static_type U NullLiteral = Some (NULL U)"
| "static_type U (Assignment lhs rhs) = Some (declared_type lhs)"
| "static_type U (MethodCall receiver method_name args) = None"
| "static_type U (ConstructorCall instantiated_type args) = Some instantiated_type"

text \<open>
  Python's truth value of what \<^verbatim>\<open>static_type()\<close> returns: \<^verbatim>\<open>None\<close> is false, a type
  object is true.
\<close>

definition truthy :: "'t option \<Rightarrow> bool" where
  "truthy x = (x \<noteq> None)"

section \<open>Checking types\<close>

definition assign_msg :: "string \<Rightarrow> string \<Rightarrow> string \<Rightarrow> string" where
  "assign_msg rhs_name var_name lhs_name =
     ''Cannot assign '' @ rhs_name @ '' to variable '' @ var_name @ '' of type '' @ lhs_name"

definition receiver_undefined_msg :: string where
  "receiver_undefined_msg = ''Receiver's type is not defined for method call.''"

definition no_method_msg :: "string \<Rightarrow> string \<Rightarrow> string" where
  "no_method_msg receiver_name method_name =
     receiver_name @ '' has no method named '' @ method_name"

definition method_count_msg :: "string \<Rightarrow> string \<Rightarrow> nat \<Rightarrow> nat \<Rightarrow> string" where
  "method_count_msg receiver_name method_name expected_count actual_count =
     ''Wrong number of arguments for '' @ receiver_name @ ''.'' @ method_name
       @ ''(): expected '' @ str_nat expected_count @ '', got '' @ str_nat actual_count"

definition method_mismatch_msg :: "string \<Rightarrow> string \<Rightarrow> string list \<Rightarrow> string list \<Rightarrow> string" where
  "method_mismatch_msg receiver_name method_name param_names arg_names =
     receiver_name @ ''.'' @ method_name @ ''() expects arguments of type (''
       @ join '', '' param_names @ ''), but got ('' @ join '', '' arg_names @ '')''"

definition not_instantiable_msg :: "string \<Rightarrow> string" where
  "not_instantiable_msg type = type @ '' is not instantiable''"

definition constructor_count_msg :: "string \<Rightarrow> nat \<Rightarrow> nat \<Rightarrow> string" where
  "constructor_count_msg type expected_count actual_count =
     ''Wrong number of arguments for '' @ type @ '' constructor: expected ''
       @ str_nat expected_count @ '', got '' @ str_nat actual_count"

definition constructor_mismatch_msg :: "string \<Rightarrow> string \<Rightarrow> string \<Rightarrow> string" where
  "constructor_mismatch_msg type param_name arg_name =
     type @ '' constructor expects arguments of type '' @ param_name
       @ '', but got '' @ arg_name"

text \<open>
  The generator \<^verbatim>\<open>str(at.static_type().name) for at in self.args\<close> of the method-call
  mismatch message: it reads \<^verbatim>\<open>.name\<close> of every argument's static type, in order, and so
  raises \<^verbatim>\<open>AttributeError\<close> at the first argument whose static type is \<^verbatim>\<open>None\<close>.
\<close>

fun arg_type_names :: "'t type_universe \<Rightarrow> 't JavaExpression list \<Rightarrow> error + string list" where
  "arg_type_names U [] = Inr []"
| "arg_type_names U (at # rest) =
     (case static_type U at of
        None \<Rightarrow> Inl (none_has_no_attribute ''name'')
      | Some t \<Rightarrow>
          (case arg_type_names U rest of
             Inl e \<Rightarrow> Inl e
           | Inr names \<Rightarrow> Inr (type_name U t # names)))"

text \<open>
  The \<^verbatim>\<open>raise JavaTypeMismatchError(f"...")\<close> of \<^verbatim>\<open>JavaMethodCall.check_types\<close>: the
  message is built first, and building it can itself raise.
\<close>

definition raise_method_mismatch ::
  "'t type_universe \<Rightarrow> 't \<Rightarrow> string \<Rightarrow> 't list \<Rightarrow> 't JavaExpression list \<Rightarrow> error" where
  "raise_method_mismatch U receiver_type method_name parameter_types args =
     (case arg_type_names U args of
        Inl e \<Rightarrow> e
      | Inr arg_names \<Rightarrow>
          Raise JavaTypeMismatchError
            (method_mismatch_msg (type_name U receiver_type) method_name
               (map (type_name U) parameter_types) arg_names))"

text \<open>
  The loop \<^verbatim>\<open>for arg, param_type in zip(self.args, method.parameter_types)\<close> of
  \<^verbatim>\<open>JavaMethodCall.check_types\<close>; \<open>e\<close> is what the \<^verbatim>\<open>raise\<close> in its body raises.
\<close>

fun method_args_loop ::
  "'t type_universe \<Rightarrow> error \<Rightarrow> ('t JavaExpression \<times> 't) list \<Rightarrow> error + unit" where
  "method_args_loop U e [] = Inr ()"
| "method_args_loop U e ((arg, param_type) # rest) =
     (case static_type U arg of
        None \<Rightarrow> Inl (none_has_no_attribute ''is_subtype_of'')
      | Some arg_type \<Rightarrow>
          if \<not> is_subtype_of U arg_type param_type then Inl e
          else method_args_loop U e rest)"

text \<open>
  The loop \<^verbatim>\<open>for arg, param_type in zip(self.args, constructor.param_types)\<close> of
  \<^verbatim>\<open>JavaConstructorCall.check_types\<close>.
\<close>

fun constructor_args_loop ::
  "'t type_universe \<Rightarrow> 't \<Rightarrow> ('t JavaExpression \<times> 't) list \<Rightarrow> error + unit" where
  "constructor_args_loop U instantiated_type [] = Inr ()"
| "constructor_args_loop U instantiated_type ((arg, param_type) # rest) =
     (case static_type U arg of
        None \<Rightarrow> Inl (none_has_no_attribute ''is_subtype_of'')
      | Some arg_type \<Rightarrow>
          if \<not> is_subtype_of U arg_type param_type then
            Inl (Raise JavaTypeMismatchError
                   (constructor_mismatch_msg (type_name U instantiated_type)
                      (type_name U param_type) (type_name U arg_type)))
          else constructor_args_loop U instantiated_type rest)"

text \<open>
  \<^verbatim>\<open>check_types\<close> of every class; \<open>check_all\<close> is the final loop
  \<^verbatim>\<open>for arg in self.args: arg.check_types()\<close> of \<^verbatim>\<open>JavaConstructorCall\<close>, which stops at
  the first argument that raises. The result is \<open>Inr ()\<close> when the method returns and
  \<open>Inl e\<close> when it raises \<open>e\<close>.
\<close>

fun check_types :: "'t type_universe \<Rightarrow> 't JavaExpression \<Rightarrow> error + unit"
  and check_all :: "'t type_universe \<Rightarrow> 't JavaExpression list \<Rightarrow> error + unit" where
  "check_types U (Variable v) = Inr ()"
| "check_types U (Literal val t) = Inr ()"
| "check_types U NullLiteral = Inr ()"
| "check_types U (Assignment lhs rhs) =
     (let lhs_type = declared_type lhs in
      case static_type U rhs of
        None \<Rightarrow> Inl (none_has_no_attribute ''is_subtype_of'')
      | Some rhs_type \<Rightarrow>
          if \<not> is_subtype_of U rhs_type lhs_type then
            Inl (Raise JavaTypeMismatchError
                   (assign_msg (type_name U rhs_type) (name lhs) (type_name U lhs_type)))
          else Inr ())"
| "check_types U (MethodCall receiver method_name args) =
     (if \<not> truthy (static_type U receiver) then Inr ()
      else
        case static_type U receiver of
          None \<Rightarrow> Inl (Raise JavaTypeError receiver_undefined_msg)
        | Some receiver_type \<Rightarrow>
            (case method_named U receiver_type method_name of
               None \<Rightarrow>
                 Inl (Raise JavaTypeError
                        (no_method_msg (type_name U receiver_type) method_name))
             | Some parameter_types \<Rightarrow>
                 if length args \<noteq> length parameter_types then
                   Inl (Raise JavaArgumentCountError
                          (method_count_msg (type_name U receiver_type) method_name
                             (length parameter_types) (length args)))
                 else
                   method_args_loop U
                     (raise_method_mismatch U receiver_type method_name parameter_types args)
                     (zip args parameter_types)))"
| "check_types U (ConstructorCall instantiated_type args) =
     (if \<not> is_instantiable U instantiated_type then
        Inl (Raise JavaIllegalInstantiationError
               (not_instantiable_msg (type_name U instantiated_type)))
      else if length args \<noteq> length (constructor U instantiated_type) then
        Inl (Raise JavaArgumentCountError
               (constructor_count_msg (type_name U instantiated_type)
                  (length (constructor U instantiated_type)) (length args)))
      else
        case constructor_args_loop U instantiated_type
               (zip args (constructor U instantiated_type)) of
          Inl e \<Rightarrow> Inl e
        | Inr u \<Rightarrow> check_all U args)"
| "check_all U [] = Inr ()"
| "check_all U (arg # rest) =
     (case check_types U arg of
        Inl e \<Rightarrow> Inl e
      | Inr u \<Rightarrow> check_all U rest)"

section \<open>An example type universe\<close>

text \<open>
  A small universe and a few expressions over it, used to instantiate the theorems below
  at concrete inputs: \<open>int\<close>, \<open>String\<close>, \<open>Object\<close>, the bottom type \<open>null\<close>, a class
  \<open>Foo\<close> whose constructor takes one \<open>int\<close> and which has the methods
  \<open>scale(int, int)\<close> and \<open>getName()\<close>, and a class \<open>AbstractThing\<close> that cannot be
  instantiated. Every reference type is a subtype of itself and of \<open>Object\<close>, and
  \<open>null\<close> is a subtype of every reference type.
\<close>

datatype sample_type = java_int | java_String | java_Object | Foo | AbstractThing | java_null

fun sample_name :: "sample_type \<Rightarrow> string" where
  "sample_name java_int = ''int''"
| "sample_name java_String = ''String''"
| "sample_name java_Object = ''Object''"
| "sample_name Foo = ''Foo''"
| "sample_name AbstractThing = ''AbstractThing''"
| "sample_name java_null = ''null''"

fun sample_is_subtype_of :: "sample_type \<Rightarrow> sample_type \<Rightarrow> bool" where
  "sample_is_subtype_of java_int b = (b = java_int)"
| "sample_is_subtype_of java_null b =
     (b = java_null \<or> b = java_String \<or> b = java_Object \<or> b = Foo \<or> b = AbstractThing)"
| "sample_is_subtype_of a b = (a = b \<or> b = java_Object)"

fun sample_method_named :: "sample_type \<Rightarrow> string \<Rightarrow> sample_type list option" where
  "sample_method_named Foo m =
     (if m = ''scale'' then Some [java_int, java_int]
      else if m = ''getName'' then Some []
      else None)"
| "sample_method_named t m = None"

fun sample_is_instantiable :: "sample_type \<Rightarrow> bool" where
  "sample_is_instantiable Foo = True"
| "sample_is_instantiable java_Object = True"
| "sample_is_instantiable java_String = True"
| "sample_is_instantiable t = False"

fun sample_constructor :: "sample_type \<Rightarrow> sample_type list" where
  "sample_constructor Foo = [java_int]"
| "sample_constructor t = []"

definition sample_universe :: "sample_type type_universe" where
  "sample_universe =
     \<lparr> type_name = sample_name,
       is_subtype_of = sample_is_subtype_of,
       method_named = sample_method_named,
       is_instantiable = sample_is_instantiable,
       constructor = sample_constructor,
       NULL = java_null \<rparr>"

text \<open>The variable \<open>foo\<close> of type \<open>Foo\<close> and the variable \<open>x\<close> of type \<open>int\<close>.\<close>

definition foo :: "sample_type JavaExpression" where
  "foo = Variable (JavaVariable ''foo'' Foo)"

definition x_int :: "sample_type JavaVariable" where
  "x_int = JavaVariable ''x'' java_int"

text \<open>The literals \<open>"hello"\<close> and \<open>2\<close>.\<close>

definition hello :: "sample_type JavaExpression" where
  "hello = Literal ''hello'' java_String"

definition two :: "sample_type JavaExpression" where
  "two = Literal ''2'' java_int"

text \<open>The call \<open>foo.getName()\<close> and the ill-typed assignment \<open>x = "hello"\<close>.\<close>

definition foo_getName :: "sample_type JavaExpression" where
  "foo_getName = MethodCall foo ''getName'' []"

definition x_is_hello :: "sample_type JavaExpression" where
  "x_is_hello = Assignment x_int hello"

section \<open>Auxiliary facts\<close>

lemmas sample_defs = sample_universe_def foo_def x_int_def hello_def two_def foo_getName_def
  x_is_hello_def

text \<open>When every argument has a static type, the loops read exactly those types.\<close>

lemma arg_type_names_defined:
  "map (static_type U) args = map Some ts \<Longrightarrow>
   arg_type_names U args = Inr (map (type_name U) ts)"
  by (induction args arbitrary: ts) auto

lemma method_args_loop_defined:
  "map (static_type U) args = map Some ts \<Longrightarrow> length ts = length ps \<Longrightarrow>
   method_args_loop U e (zip args ps) =
     (if list_all2 (is_subtype_of U) ts ps then Inr () else Inl e)"
proof (induction args arbitrary: ts ps)
  case Nil
  then show ?case by simp
next
  case (Cons a args)
  then obtain t ts' where ts: "ts = t # ts'" by (cases ts) auto
  with Cons.prems obtain p ps' where ps: "ps = p # ps'" by (cases ps) auto
  from Cons.prems ts ps have "static_type U a = Some t"
    "map (static_type U) args = map Some ts'" "length ts' = length ps'" by auto
  with Cons.IH[of ts' ps'] ts ps show ?case by simp
qed

text \<open>The loops of a method call depend on the arguments through their static types only.\<close>

lemma method_args_loop_static:
  "map (static_type U) args = map (static_type U) args' \<Longrightarrow>
   method_args_loop U e (zip args ps) = method_args_loop U e (zip args' ps)"
proof (induction args arbitrary: args' ps)
  case Nil
  then show ?case by simp
next
  case (Cons a args)
  then obtain a' rest' where args': "args' = a' # rest'" by (cases args') auto
  show ?case
  proof (cases ps)
    case Nil
    then show ?thesis by simp
  next
    case (Cons p ps')
    from Cons.prems args' have "static_type U a = static_type U a'"
      "map (static_type U) args = map (static_type U) rest'" by auto
    with Cons.IH[of rest' ps'] args' Cons show ?thesis
      by (simp split: option.splits)
  qed
qed

lemma arg_type_names_static:
  "map (static_type U) args = map (static_type U) args' \<Longrightarrow>
   arg_type_names U args = arg_type_names U args'"
proof (induction args arbitrary: args')
  case Nil
  then show ?case by simp
next
  case (Cons a args)
  then obtain a' rest' where args': "args' = a' # rest'" by (cases args') auto
  from Cons.prems args' have "static_type U a = static_type U a'"
    "map (static_type U) args = map (static_type U) rest'" by auto
  with Cons.IH[of rest'] args' show ?case by (simp split: option.splits)
qed

text \<open>Arguments that match the signature pairwise pass both loops.\<close>

lemma method_args_loop_matching:
  "list_all2 (\<lambda>a p. \<exists>t. static_type U a = Some t \<and> is_subtype_of U t p) args ps \<Longrightarrow>
   method_args_loop U e (zip args ps) = Inr ()"
  by (induction args ps rule: list_all2_induct) auto

lemma constructor_args_loop_matching:
  "list_all2 (\<lambda>a p. \<exists>t. static_type U a = Some t \<and> is_subtype_of U t p) args ps \<Longrightarrow>
   constructor_args_loop U T (zip args ps) = Inr ()"
  by (induction args ps rule: list_all2_induct) auto

text \<open>The errors a method call's argument loop can end with.\<close>

lemma arg_type_names_error:
  "arg_type_names U args = Inl e \<Longrightarrow> exn_class e = AttributeError"
  by (induction args arbitrary: e)
     (auto simp: none_has_no_attribute_def split: option.splits sum.splits)

lemma raise_method_mismatch_class:
  "exn_class (raise_method_mismatch U rt mn ps args) \<noteq> JavaTypeError"
  by (auto simp: raise_method_mismatch_def split: sum.splits dest: arg_type_names_error)

lemma method_args_loop_error:
  "method_args_loop U e xs = Inl e' \<Longrightarrow> e' = e \<or> exn_class e' = AttributeError"
  by (induction U e xs rule: method_args_loop.induct)
     (auto simp: none_has_no_attribute_def split: option.splits if_splits)

text \<open>
  The two messages raised with the class \<^verbatim>\<open>JavaTypeError\<close> itself differ whatever the
  names are: the letter \<open>h\<close> occurs at least twice in one and once in the other.
\<close>

lemma no_method_msg_neq:
  "no_method_msg rn mn \<noteq> receiver_undefined_msg"
proof
  assume "no_method_msg rn mn = receiver_undefined_msg"
  then have "length (filter (\<lambda>c. c = CHR ''h'') (no_method_msg rn mn)) =
             length (filter (\<lambda>c. c = CHR ''h'') receiver_undefined_msg)"
    by (rule arg_cong)
  then show False
    by (simp add: no_method_msg_def receiver_undefined_msg_def)
qed

text \<open>The final loop of a constructor call: success, and the first failure.\<close>

lemma check_all_ok_iff:
  "(check_all U args = Inr ()) = (\<forall>a\<in>set args. check_types U a = Inr ())"
  by (induction args) (auto split: sum.splits)

lemma check_all_first_failure:
  "i < length args \<Longrightarrow> \<forall>j<i. check_types U (args ! j) = Inr () \<Longrightarrow>
   check_types U (args ! i) = Inl e \<Longrightarrow> check_all U args = Inl e"
proof (induction args arbitrary: i)
  case Nil
  then show ?case by simp
next
  case (Cons a args)
  show ?case
  proof (cases i)
    case 0
    with Cons.prems show ?thesis by simp
  next
    case (Suc k)
    with Cons.prems have "check_types U a = Inr ()" by auto
    moreover from Suc Cons.prems have "check_all U args = Inl e"
      by (intro Cons.IH[of k]) auto
    ultimately show ?thesis by simp
  qed
qed

section \<open>Method calls on a type without the method\<close>

text \<open>
  Claim C1, as the code has it: for every method call whose receiver has a static type
  that has no method of the given name, \<open>check_types\<close> raises an error whose message
  \<open>"<receiver type> has no method named <method name>"\<close> names the receiver type and the
  method name. The error is raised with the class \<^verbatim>\<open>JavaTypeError\<close>, the common category
  itself; the code has no subclass for a missing method.
\<close>

theorem no_such_method_error:
  assumes "static_type U receiver = Some receiver_type"
    and "method_named U receiver_type method_name = None"
  shows "check_types U (MethodCall receiver method_name args) =
           Inl (Raise JavaTypeError
                  (type_name U receiver_type @ '' has no method named '' @ method_name))"
  using assms by (simp add: truthy_def no_method_msg_def)

text \<open>The call \<open>foo.bar()\<close>, where \<open>Foo\<close> has no method \<open>bar\<close>.\<close>

theorem no_such_method_error_witness:
  "static_type sample_universe foo = Some Foo
   \<and> method_named sample_universe Foo ''bar'' = None
   \<and> check_types sample_universe (MethodCall foo ''bar'' []) =
       Inl (Raise JavaTypeError ''Foo has no method named bar'')"
  using no_such_method_error [of sample_universe foo Foo "''bar''" "[]"]
  by (simp add: sample_defs)

text \<open>
  Claim C1, as stated, asks for a specialization of the common category. For \<open>foo.bar()\<close>
  the class of the error raised is \<^verbatim>\<open>JavaTypeError\<close>, which is not one of its own
  subclasses.
\<close>

theorem no_such_method_not_specialized:
  "check_types sample_universe (MethodCall foo ''bar'' []) =
     Inl (Raise JavaTypeError ''Foo has no method named bar'')
   \<and> \<not> is_specialization JavaTypeError"
  by (simp add: sample_defs truthy_def no_method_msg_def is_specialization_def)

section \<open>Assignments\<close>

text \<open>
  Where the right-hand side has a static type, the check of an assignment is the subtype
  test: it succeeds if and only if that type is a subtype of the variable's declared type,
  and otherwise raises a \<^verbatim>\<open>JavaTypeMismatchError\<close> whose message names the type of the
  value, the name of the variable and the declared type of the variable.
\<close>

lemma assignment_with_typed_rhs:
  assumes "static_type U rhs = Some rhs_type"
  shows "check_types U (Assignment lhs rhs) =
           (if is_subtype_of U rhs_type (declared_type lhs) then Inr ()
            else Inl (Raise JavaTypeMismatchError
                        (''Cannot assign '' @ type_name U rhs_type @ '' to variable ''
                           @ name lhs @ '' of type '' @ type_name U (declared_type lhs))))"
  using assms by (simp add: assign_msg_def)

text \<open>The assignment \<open>x = "hello"\<close> with \<open>x\<close> declared \<open>int\<close>.\<close>

lemma assignment_with_typed_rhs_example:
  "static_type sample_universe hello = Some java_String
   \<and> check_types sample_universe (Assignment x_int hello) =
       Inl (Raise JavaTypeMismatchError ''Cannot assign String to variable x of type int'')"
  using assignment_with_typed_rhs [of sample_universe hello java_String x_int]
  by (simp add: sample_defs)

text \<open>
  Claim C2: for every assignment, \<open>check_types\<close> succeeds if and only if the static type
  of the right-hand side is a subtype of the static type of the variable, and otherwise
  raises a \<^verbatim>\<open>JavaTypeMismatchError\<close> naming the type of the value, the name of the
  variable and its declared type. The code departs from this at \<open>x = foo.getName()\<close>:
  the right-hand side has no static type, \<^verbatim>\<open>rhs_type.is_subtype_of\<close> is read from
  \<^verbatim>\<open>None\<close> without the guard that a method call has for its receiver, and the check
  raises \<^verbatim>\<open>AttributeError\<close>. That is neither a return nor a \<^verbatim>\<open>JavaTypeMismatchError\<close>,
  and not a \<^verbatim>\<open>JavaTypeError\<close> at all, although the docstring of \<^verbatim>\<open>check_types\<close> allows
  nothing else to be raised.
\<close>

theorem assignment_of_method_call_attribute_error:
  "static_type sample_universe foo_getName = None
   \<and> check_types sample_universe (Assignment x_int foo_getName) =
       Inl (Raise AttributeError
              ([CHR 0x27] @ ''NoneType'' @ [CHR 0x27] @ '' object has no attribute ''
                 @ [CHR 0x27] @ ''is_subtype_of'' @ [CHR 0x27]))
   \<and> check_types sample_universe (Assignment x_int foo_getName) \<noteq> Inr ()
   \<and> AttributeError \<noteq> JavaTypeMismatchError
   \<and> \<not> is_JavaTypeError AttributeError"
  by (simp add: sample_defs none_has_no_attribute_def is_JavaTypeError_def)

section \<open>Method calls\<close>

text \<open>
  Claim C3: for every method call whose receiver has no static type, \<open>check_types\<close>
  succeeds, whatever the method name and the arguments are.
\<close>

theorem undefined_receiver_succeeds:
  assumes "static_type U receiver = None"
  shows "check_types U (MethodCall receiver method_name args) = Inr ()"
  using assms by (simp add: truthy_def)

text \<open>
  The chained call \<open>foo.getName().bar("hello", x = "hello")\<close>: no type has a method
  \<open>bar\<close>, and the second argument is ill-typed.
\<close>

theorem undefined_receiver_succeeds_witness:
  "static_type sample_universe foo_getName = None
   \<and> check_types sample_universe (MethodCall foo_getName ''bar'' [hello, x_is_hello]) = Inr ()"
  using undefined_receiver_succeeds [of sample_universe foo_getName "''bar''" "[hello, x_is_hello]"]
  by (simp add: sample_defs)

text \<open>
  Claim C4: for every method call whose method resolves and whose number of arguments
  differs from the number of parameter types of the method, \<open>check_types\<close> raises a
  \<^verbatim>\<open>JavaArgumentCountError\<close> whose message reports the expected and the actual count. The
  arguments are arbitrary: the count is compared before any argument's type is looked at.
\<close>

theorem method_argument_count_error:
  assumes "static_type U receiver = Some receiver_type"
    and "method_named U receiver_type method_name = Some parameter_types"
    and "length args \<noteq> length parameter_types"
  shows "check_types U (MethodCall receiver method_name args) =
           Inl (Raise JavaArgumentCountError
                  (''Wrong number of arguments for '' @ type_name U receiver_type @ ''.''
                     @ method_name @ ''(): expected '' @ str_nat (length parameter_types)
                     @ '', got '' @ str_nat (length args)))"
  using assms by (simp add: truthy_def method_count_msg_def)

text \<open>
  The call \<open>foo.scale("hello", foo.getName(), 2)\<close>: three arguments for two parameters;
  the first has the wrong type and the second has no static type.
\<close>

theorem method_argument_count_error_witness:
  "static_type sample_universe foo = Some Foo
   \<and> method_named sample_universe Foo ''scale'' = Some [java_int, java_int]
   \<and> length [hello, foo_getName, two] \<noteq> length [java_int, java_int]
   \<and> check_types sample_universe (MethodCall foo ''scale'' [hello, foo_getName, two]) =
       Inl (Raise JavaArgumentCountError
              ''Wrong number of arguments for Foo.scale(): expected 2, got 3'')"
  using method_argument_count_error
          [of sample_universe foo Foo "''scale''" "[java_int, java_int]" "[hello, foo_getName, two]"]
  by (simp add: sample_defs str_nat.simps)

text \<open>
  Where every argument has a static type, a method call with a resolved method and the
  right number of arguments, one of whose argument types is not a subtype of its
  parameter type, raises a \<^verbatim>\<open>JavaTypeMismatchError\<close> whose message lists all the
  parameter types of the method and the static types of all the arguments.
\<close>

lemma method_mismatch_with_typed_args:
  assumes "static_type U receiver = Some receiver_type"
    and "method_named U receiver_type method_name = Some parameter_types"
    and "length args = length parameter_types"
    and "map (static_type U) args = map Some arg_types"
    and "\<not> list_all2 (is_subtype_of U) arg_types parameter_types"
  shows "check_types U (MethodCall receiver method_name args) =
           Inl (Raise JavaTypeMismatchError
                  (type_name U receiver_type @ ''.'' @ method_name
                     @ ''() expects arguments of type (''
                     @ join '', '' (map (type_name U) parameter_types)
                     @ ''), but got ('' @ join '', '' (map (type_name U) arg_types) @ '')''))"
proof -
  from assms(3,4) have len: "length arg_types = length parameter_types"
    by (metis length_map)
  have "method_args_loop U e (zip args parameter_types) = Inl e" for e
    using method_args_loop_defined [OF assms(4) len] assms(5) by simp
  then show ?thesis
    using assms(1-3) arg_type_names_defined [OF assms(4)]
    by (simp add: truthy_def raise_method_mismatch_def method_mismatch_msg_def)
qed

text \<open>The call \<open>foo.scale(2, "hello")\<close>.\<close>

lemma method_mismatch_with_typed_args_example:
  "static_type sample_universe foo = Some Foo
   \<and> method_named sample_universe Foo ''scale'' = Some [java_int, java_int]
   \<and> map (static_type sample_universe) [two, hello] = map Some [java_int, java_String]
   \<and> \<not> list_all2 (is_subtype_of sample_universe) [java_int, java_String] [java_int, java_int]
   \<and> check_types sample_universe (MethodCall foo ''scale'' [two, hello]) =
       Inl (Raise JavaTypeMismatchError
              ''Foo.scale() expects arguments of type (int, int), but got (int, String)'')"
  using method_mismatch_with_typed_args
          [of sample_universe foo Foo "''scale''" "[java_int, java_int]" "[two, hello]"
              "[java_int, java_String]"]
  by (simp add: sample_defs)

text \<open>
  Claim C5: for every method call with a resolved method and the right number of
  arguments, if some argument's static type is not a subtype of the corresponding
  parameter type, \<open>check_types\<close> raises a \<^verbatim>\<open>JavaTypeMismatchError\<close> whose message lists
  all the parameter types and all the argument types. The code departs from this at
  \<open>foo.scale("hello", foo.getName())\<close>: the method resolves, the count is right and the
  first argument's type \<open>String\<close> is not a subtype of \<open>int\<close>, so the
  \<^verbatim>\<open>raise JavaTypeMismatchError\<close> is reached; building its message reads \<^verbatim>\<open>name\<close> from
  the second argument's static type \<^verbatim>\<open>None\<close>, and the check raises \<^verbatim>\<open>AttributeError\<close>
  instead, which is not a \<^verbatim>\<open>JavaTypeError\<close>.
\<close>

theorem method_mismatch_message_attribute_error:
  "static_type sample_universe foo = Some Foo
   \<and> method_named sample_universe Foo ''scale'' = Some [java_int, java_int]
   \<and> length [hello, foo_getName] = length [java_int, java_int]
   \<and> static_type sample_universe hello = Some java_String
   \<and> \<not> is_subtype_of sample_universe java_String java_int
   \<and> static_type sample_universe foo_getName = None
   \<and> check_types sample_universe (MethodCall foo ''scale'' [hello, foo_getName]) =
       Inl (Raise AttributeError
              ([CHR 0x27] @ ''NoneType'' @ [CHR 0x27] @ '' object has no attribute ''
                 @ [CHR 0x27] @ ''name'' @ [CHR 0x27]))
   \<and> AttributeError \<noteq> JavaTypeMismatchError
   \<and> \<not> is_JavaTypeError AttributeError"
  by (simp add: sample_defs truthy_def raise_method_mismatch_def none_has_no_attribute_def
        is_JavaTypeError_def)

text \<open>
  Claim C6: \<open>check_types\<close> of a method call reads the receiver and the arguments through
  their static types only, so replacing them by expressions with the same static types
  does not change the result; and a call whose method resolves and whose arguments match
  the parameter types pairwise (same count, each static type a subtype of its parameter
  type) succeeds, whatever \<open>check_types\<close> of an argument would say.
\<close>

theorem method_call_reads_static_types_only:
  "(static_type U receiver' = static_type U receiver \<longrightarrow>
    map (static_type U) args' = map (static_type U) args \<longrightarrow>
    check_types U (MethodCall receiver' method_name args') =
      check_types U (MethodCall receiver method_name args))
   \<and> (static_type U receiver = Some receiver_type \<longrightarrow>
      method_named U receiver_type method_name = Some parameter_types \<longrightarrow>
      list_all2 (\<lambda>a p. \<exists>t. static_type U a = Some t \<and> is_subtype_of U t p)
        args parameter_types \<longrightarrow>
      check_types U (MethodCall receiver method_name args) = Inr ())"
proof (intro conjI impI)
  assume r: "static_type U receiver' = static_type U receiver"
    and a: "map (static_type U) args' = map (static_type U) args"
  from a have len: "length args' = length args" by (metis length_map)
  show "check_types U (MethodCall receiver' method_name args') =
      check_types U (MethodCall receiver method_name args)"
    using r len method_args_loop_static [OF a] arg_type_names_static [OF a]
    by (simp add: raise_method_mismatch_def split: option.splits)
next
  assume "static_type U receiver = Some receiver_type"
    and "method_named U receiver_type method_name = Some parameter_types"
    and m: "list_all2 (\<lambda>a p. \<exists>t. static_type U a = Some t \<and> is_subtype_of U t p)
        args parameter_types"
  then show "check_types U (MethodCall receiver method_name args) = Inr ()"
    using method_args_loop_matching [OF m] list_all2_lengthD [OF m]
    by (simp add: truthy_def)
qed

text \<open>
  The call \<open>foo.scale(x = "hello", 2)\<close>: the first argument is an ill-typed assignment
  whose static type is \<open>int\<close>; the call succeeds, as \<open>foo.scale(x, 2)\<close> does.
\<close>

theorem method_call_reads_static_types_only_witness:
  "static_type sample_universe foo = Some Foo
   \<and> method_named sample_universe Foo ''scale'' = Some [java_int, java_int]
   \<and> list_all2 (\<lambda>a p. \<exists>t. static_type sample_universe a = Some t
                          \<and> is_subtype_of sample_universe t p)
        [x_is_hello, two] [java_int, java_int]
   \<and> check_types sample_universe x_is_hello =
       Inl (Raise JavaTypeMismatchError ''Cannot assign String to variable x of type int'')
   \<and> check_types sample_universe (MethodCall foo ''scale'' [x_is_hello, two]) = Inr ()
   \<and> map (static_type sample_universe) [Variable x_int, two] =
       map (static_type sample_universe) [x_is_hello, two]
   \<and> check_types sample_universe (MethodCall foo ''scale'' [Variable x_int, two]) =
       check_types sample_universe (MethodCall foo ''scale'' [x_is_hello, two])"
  using method_call_reads_static_types_only
          [of sample_universe foo foo "[Variable x_int, two]" "[x_is_hello, two]" "''scale''"
              Foo "[java_int, java_int]"]
  by (simp add: sample_defs assign_msg_def)

text \<open>
  Claim C9: the branch of \<^verbatim>\<open>JavaMethodCall.check_types\<close> that raises
  \<open>"Receiver's type is not defined for method call."\<close> is never taken: no method call
  ends with that error, and whenever the receiver's static type is \<^verbatim>\<open>None\<close> (the value
  the first guard tests for) the call has already returned successfully.
\<close>

theorem receiver_undefined_error_unreachable:
  "check_types U (MethodCall receiver method_name args) \<noteq>
     Inl (Raise JavaTypeError ''Receiver's type is not defined for method call.'')
   \<and> (\<not> truthy (static_type U receiver) \<longrightarrow>
        check_types U (MethodCall receiver method_name args) = Inr ())"
proof
  show "check_types U (MethodCall receiver method_name args) \<noteq>
     Inl (Raise JavaTypeError ''Receiver's type is not defined for method call.'')"
  proof (cases "static_type U receiver")
    case None
    then show ?thesis by (simp add: truthy_def)
  next
    case (Some rt)
    show ?thesis
    proof (cases "method_named U rt method_name")
      case None
      with Some no_method_msg_neq [of "type_name U rt" method_name] show ?thesis
        by (simp add: truthy_def receiver_undefined_msg_def)
    next
      case ps: (Some ps)
      show ?thesis
      proof (cases "length args = length ps")
        case False
        with Some ps show ?thesis by (simp add: truthy_def)
      next
        case True
        have "method_args_loop U (raise_method_mismatch U rt method_name ps args) (zip args ps)
                \<noteq> Inl (Raise JavaTypeError ''Receiver's type is not defined for method call.'')"
          using method_args_loop_error raise_method_mismatch_class
          by (metis error.sel(1) exception_class.distinct(7))
        with Some ps True show ?thesis by (simp add: truthy_def)
      qed
    qed
  qed
next
  show "\<not> truthy (static_type U receiver) \<longrightarrow>
        check_types U (MethodCall receiver method_name args) = Inr ()"
    by simp
qed

text \<open>The chained call \<open>foo.getName().length()\<close>.\<close>

theorem receiver_undefined_error_unreachable_witness:
  "\<not> truthy (static_type sample_universe foo_getName)
   \<and> check_types sample_universe (MethodCall foo_getName ''length'' []) = Inr ()
   \<and> check_types sample_universe (MethodCall foo_getName ''length'' []) \<noteq>
       Inl (Raise JavaTypeError ''Receiver's type is not defined for method call.'')"
  using receiver_undefined_error_unreachable [of sample_universe foo_getName "''length''" "[]"]
  by (simp add: sample_defs truthy_def)

section \<open>Constructor calls\<close>

text \<open>
  Claim C7: for every constructor call on a type that is not instantiable, \<open>check_types\<close>
  raises a \<^verbatim>\<open>JavaIllegalInstantiationError\<close> whose message names the type, whatever the
  arguments are.
\<close>

theorem illegal_instantiation_error:
  assumes "\<not> is_instantiable U instantiated_type"
  shows "check_types U (ConstructorCall instantiated_type args) =
           Inl (Raise JavaIllegalInstantiationError
                  (type_name U instantiated_type @ '' is not instantiable''))"
  using assms by (simp add: not_instantiable_msg_def)

text \<open>The call \<open>new AbstractThing(2, "hello")\<close>.\<close>

theorem illegal_instantiation_error_witness:
  "\<not> is_instantiable sample_universe AbstractThing
   \<and> check_types sample_universe (ConstructorCall AbstractThing [two, hello]) =
       Inl (Raise JavaIllegalInstantiationError ''AbstractThing is not instantiable'')"
  using illegal_instantiation_error [of sample_universe AbstractThing "[two, hello]"]
  by (simp add: sample_defs)

text \<open>
  Claim C8: for every constructor call on an instantiable type whose arguments match the
  constructor's parameter types pairwise (same count, each static type a subtype of its
  parameter type), \<open>check_types\<close> goes on to check every argument: the call succeeds
  exactly when every argument's own check succeeds, and when an argument's check raises
  an error after all the arguments before it have passed, the call raises that error.
\<close>

theorem constructor_call_checks_arguments:
  assumes "is_instantiable U instantiated_type"
    and "list_all2 (\<lambda>a p. \<exists>t. static_type U a = Some t \<and> is_subtype_of U t p)
           args (constructor U instantiated_type)"
  shows "(check_types U (ConstructorCall instantiated_type args) = Inr ()) =
           (\<forall>a\<in>set args. check_types U a = Inr ())
         \<and> (\<forall>i<length args.
              (\<forall>j<i. check_types U (args ! j) = Inr ()) \<longrightarrow>
              check_types U (args ! i) = Inl e \<longrightarrow>
              check_types U (ConstructorCall instantiated_type args) = Inl e)"
proof -
  have "check_types U (ConstructorCall instantiated_type args) = check_all U args"
    using assms(1) constructor_args_loop_matching [OF assms(2)] list_all2_lengthD [OF assms(2)]
    by simp
  then show ?thesis
    using check_all_ok_iff [of U args] check_all_first_failure [of _ args U e] by simp
qed

text \<open>
  The call \<open>new Foo(x = "hello")\<close>: the argument has the static type \<open>int\<close> that the
  constructor expects and is itself ill-typed, so the call fails with the argument's error.
\<close>

theorem constructor_call_checks_arguments_witness:
  "is_instantiable sample_universe Foo
   \<and> list_all2 (\<lambda>a p. \<exists>t. static_type sample_universe a = Some t
                          \<and> is_subtype_of sample_universe t p)
        [x_is_hello] (constructor sample_universe Foo)
   \<and> check_types sample_universe x_is_hello =
       Inl (Raise JavaTypeMismatchError ''Cannot assign String to variable x of type int'')
   \<and> check_types sample_universe (ConstructorCall Foo [x_is_hello]) =
       Inl (Raise JavaTypeMismatchError ''Cannot assign String to variable x of type int'')"
proof -
  have inst: "is_instantiable sample_universe Foo"
    by (simp add: sample_defs)
  have args: "list_all2 (\<lambda>a p. \<exists>t. static_type sample_universe a = Some t
                          \<and> is_subtype_of sample_universe t p)
        [x_is_hello] (constructor sample_universe Foo)"
    by (simp add: sample_defs)
  have arg: "check_types sample_universe x_is_hello =
       Inl (Raise JavaTypeMismatchError ''Cannot assign String to variable x of type int'')"
    by (simp add: sample_defs assign_msg_def)
  from constructor_call_checks_arguments [OF inst args,
      of "Raise JavaTypeMismatchError ''Cannot assign String to variable x of type int''"] arg
  have "check_types sample_universe (ConstructorCall Foo [x_is_hello]) =
       Inl (Raise JavaTypeMismatchError ''Cannot assign String to variable x of type int'')"
    by simp
  with inst args arg show ?thesis by blast
qed

section \<open>Assignments of expressions without a static type\<close>

text \<open>
  Claim C10: a method call has no static type, and assigning one to a variable makes
  \<open>check_types\<close> of the assignment raise \<^verbatim>\<open>AttributeError\<close> (reading \<^verbatim>\<open>is_subtype_of\<close>
  from \<^verbatim>\<open>None\<close>), which is not a \<^verbatim>\<open>JavaTypeError\<close>. In general the check of an
  assignment returns or raises a \<^verbatim>\<open>JavaTypeMismatchError\<close> when the right-hand side has a
  static type, and raises \<^verbatim>\<open>AttributeError\<close> when it has none.
\<close>

theorem assignment_needs_typed_rhs:
  "static_type U (MethodCall receiver method_name args) = None
   \<and> check_types U (Assignment lhs (MethodCall receiver method_name args)) =
       Inl (Raise AttributeError
              ([CHR 0x27] @ ''NoneType'' @ [CHR 0x27] @ '' object has no attribute ''
                 @ [CHR 0x27] @ ''is_subtype_of'' @ [CHR 0x27]))
   \<and> \<not> is_JavaTypeError AttributeError
   \<and> (static_type U rhs \<noteq> None \<longrightarrow>
        check_types U (Assignment lhs rhs) = Inr ()
        \<or> (\<exists>msg. check_types U (Assignment lhs rhs) = Inl (Raise JavaTypeMismatchError msg)))
   \<and> (static_type U rhs = None \<longrightarrow>
        (\<exists>msg. check_types U (Assignment lhs rhs) = Inl (Raise AttributeError msg)))"
proof (intro conjI impI)
  assume "static_type U rhs \<noteq> None"
  then obtain rhs_type where "static_type U rhs = Some rhs_type" by auto
  then show "check_types U (Assignment lhs rhs) = Inr ()
      \<or> (\<exists>msg. check_types U (Assignment lhs rhs) = Inl (Raise JavaTypeMismatchError msg))"
    by (cases "is_subtype_of U rhs_type (declared_type lhs)") simp_all
next
  assume "static_type U rhs = None"
  then show "\<exists>msg. check_types U (Assignment lhs rhs) = Inl (Raise AttributeError msg)"
    by (simp add: none_has_no_attribute_def)
qed (simp_all add: none_has_no_attribute_def is_JavaTypeError_def)

text \<open>The assignments \<open>x = foo.getName()\<close> and \<open>x = "hello"\<close>.\<close>

theorem assignment_needs_typed_rhs_witness:
  "static_type sample_universe foo_getName = None
   \<and> static_type sample_universe hello \<noteq> None
   \<and> check_types sample_universe (Assignment x_int foo_getName) =
       Inl (Raise AttributeError
              ([CHR 0x27] @ ''NoneType'' @ [CHR 0x27] @ '' object has no attribute ''
                 @ [CHR 0x27] @ ''is_subtype_of'' @ [CHR 0x27]))
   \<and> check_types sample_universe (Assignment x_int hello) =
       Inl (Raise JavaTypeMismatchError ''Cannot assign String to variable x of type int'')"
  using assignment_needs_typed_rhs [of sample_universe foo "''getName''" "[]" x_int hello]
  by (simp add: sample_defs assign_msg_def)

end
